theory Spec2Isabelle
  imports Main "HOL-Library.Word"
begin

unbundle bit_operations_syntax

section \<open>The MuPix converter plugin (Mupix6ConverterPlugin.cc)\<close>

text \<open>
  A shallow embedding of the three conversion entry points of the plugin:
  \<open>GetStandardSubEvent\<close> (one raw event into a \<open>StandardPlane\<close>) and the two
  overloads of \<open>GetLCIOSubEvent\<close> (two or three consecutive raw events merged into one
  pixel, one trigger and one time-over-threshold record).

  Unsigned 32-bit values (\<open>uint\<close>, \<open>unsigned\<close>) are \<open>32 word\<close>, \<open>uint64_t\<close> is
  \<open>64 word\<close>. Sizes of containers and loop counters are \<open>nat\<close>; where the source
  narrows a 64-bit count to a 32-bit parameter the reduction modulo \<open>2 ^ 32\<close> is written out.
\<close>

subsection \<open>Constants\<close>

definition MUPIX_EVENT_TYPE :: string where
  "MUPIX_EVENT_TYPE = ''MUPIX7''"

definition MUPIX_SENSOR_ID :: nat where
  "MUPIX_SENSOR_ID = 71"

definition MUPIX_SENSOR_TYPE :: string where
  "MUPIX_SENSOR_TYPE = ''MUPIX7''"

definition MUPIX_SENSOR_NUM_COLS :: "32 word" where
  "MUPIX_SENSOR_NUM_COLS = 40"

definition MUPIX_SENSOR_NUM_ROWS :: "32 word" where
  "MUPIX_SENSOR_NUM_ROWS = 32"

definition MUPIX_SENSOR_BINARY_SIGNAL :: nat where
  "MUPIX_SENSOR_BINARY_SIGNAL = 1"

definition MUPIX_COLLECTION_NAME :: string where
  "MUPIX_COLLECTION_NAME = ''zsdata_mupix7''"

definition TRIGGER_COLLECTION_NAME :: string where
  "TRIGGER_COLLECTION_NAME = ''eudet_triggers''"

definition TOT_COLLECTION_NAME :: string where
  "TOT_COLLECTION_NAME = ''eudet_tots''"

subsection \<open>Decoded readout data and raw events\<close>

text \<open>
  Modelled from the spec: \<open>TelescopeFrame\<close> (eudaq/Mupix.hh) and \<open>RawDataEvent\<close>
  (eudaq/RawDataEvent.hh) are declared outside the converter. A hit is a row, a column and
  an 8-bit raw timestamp; a trigger a 64-bit timestamp and a 16-bit tag; a
  time-over-threshold entry a 64-bit timestamp and an 8-bit length. A decoded frame is the
  frame timestamp and the three sequences that \<open>get_hit(j, MUPIX_TYPE)\<close>,
  \<open>get_trigger(j)\<close> and \<open>get_tot(j)\<close> index. The bit parser \<open>from_bytes\<close> is a
  parameter of every conversion function (the \<open>decoder\<close>): the same bytes decode to the
  same frame each time. A raw event is a list of blocks, each an id and a byte buffer.
\<close>

record RawHit =
  hit_column :: "32 word"
  hit_row :: "32 word"
  hit_timestamp_raw :: "8 word"

record RawTrigger =
  trigger_timestamp :: "64 word"
  trigger_tag :: "16 word"

record RawTimeOverThreshold =
  tot_timestamp :: "64 word"
  tot_length :: "8 word"

record TelescopeFrame =
  frame_timestamp :: "64 word"
  frame_hits :: "RawHit list"
  frame_triggers :: "RawTrigger list"
  frame_tots :: "RawTimeOverThreshold list"

type_synonym decoder = "8 word list \<Rightarrow> TelescopeFrame"

record RawDataBlock =
  block_id :: "32 word"
  block_data :: "8 word list"

text \<open>
  An \<open>eudaq::Event\<close> carries the two run-marker flags; the \<open>dynamic_cast\<close> to
  \<open>RawDataEvent\<close> succeeds on the first constructor only.
\<close>

datatype Event =
  RawDataEvent (IsBORE: bool) (IsEORE: bool) (Blocks: "RawDataBlock list")
| OtherEvent (IsBORE: bool) (IsEORE: bool)

text \<open>
  What a call leaves behind besides the destination event: the messages it emitted, in
  order, and how it ended. \<open>NoReturnValue\<close> is control reaching the closing brace of a
  function declared to return \<open>bool\<close>; \<open>OutOfRange\<close> is a block index outside the
  event's block list (\<open>GetID\<close> reads the block vector with a range check).
\<close>

datatype diagnostic =
  EUDAQ_ERROR string
| EUDAQ_WARN string
| COUT_WARNING "32 word" "32 word"
| COUT string

datatype outcome = Returns bool | NoReturnValue | OutOfRange

subsection \<open>Output records of the aggregation path\<close>

text \<open>
  Modelled from the spec: the pixel and trigger interfacers, \<open>EUTelMuPixel\<close>,
  \<open>EUTelExternalTrigger\<close> and the LCIO classes are declared outside the converter. A
  pixel entry carries the two coordinates, the signal, a time, the hit's raw timestamp and
  the frame timestamp, in the order of the constructor's arguments; an external trigger
  carries a 64-bit timestamp and a 16-bit label. A readout frame (\<open>TrackerDataImpl\<close>) is
  its cell id and the entries appended to it so far, in order; a collection is the
  sequence of frames pushed to it; the event maps a collection name to its collection.
  Collection parameters (the cell-id encoding string) are left out.
\<close>

record EUTelMuPixel =
  pixel_x :: "32 word"
  pixel_y :: "32 word"
  pixel_signal :: nat
  pixel_time :: nat
  pixel_hit_time :: "8 word"
  pixel_frame_time :: "64 word"

record EUTelExternalTrigger =
  ext_timestamp :: "64 word"
  ext_label :: "16 word"

datatype SparsePixelType = kEUTelMuPixel

record TrackerDataImpl =
  cell_sensorID :: nat
  cell_sparsePixelType :: "SparsePixelType option"
  sparse_pixels :: "EUTelMuPixel list"
  external_triggers :: "EUTelExternalTrigger list"

type_synonym LCCollectionVec = "TrackerDataImpl list"

type_synonym LCEvent = "string \<rightharpoonup> LCCollectionVec"

text \<open>
  The three readout frames under construction and the text written to \<open>cout\<close>.
\<close>

record merge_state =
  mupix_frame :: TrackerDataImpl
  trigger_frame :: TrackerDataImpl
  tot_frame :: TrackerDataImpl
  cout :: "diagnostic list"

definition addSparsePixel :: "EUTelMuPixel \<Rightarrow> TrackerDataImpl \<Rightarrow> TrackerDataImpl" where
  "addSparsePixel pixel frame = frame\<lparr>sparse_pixels := sparse_pixels frame @ [pixel]\<rparr>"

definition addExternalTrigger ::
  "EUTelExternalTrigger \<Rightarrow> TrackerDataImpl \<Rightarrow> TrackerDataImpl" where
  "addExternalTrigger trigger frame =
     frame\<lparr>external_triggers := external_triggers frame @ [trigger]\<rparr>"

text \<open>The cell ids: the sensor id chain of the source and the constant 1 of both
  trigger-shaped streams.\<close>

definition new_mupix_frame :: TrackerDataImpl where
  "new_mupix_frame =
     \<lparr>cell_sensorID =
        (if MUPIX_SENSOR_ID = 601 then 61
         else if MUPIX_SENSOR_ID = 701 then 71
         else MUPIX_SENSOR_ID),
      cell_sparsePixelType = Some kEUTelMuPixel,
      sparse_pixels = [],
      external_triggers = []\<rparr>"

definition new_trigger_frame :: TrackerDataImpl where
  "new_trigger_frame =
     \<lparr>cell_sensorID = 1, cell_sparsePixelType = None,
      sparse_pixels = [], external_triggers = []\<rparr>"

definition new_frames :: merge_state where
  "new_frames =
     \<lparr>mupix_frame = new_mupix_frame,
      trigger_frame = new_trigger_frame,
      tot_frame = new_trigger_frame,
      cout = []\<rparr>"

subsection \<open>Encoding of triggers, time-over-threshold entries and hits\<close>

definition encode_trigger :: "RawTrigger \<Rightarrow> EUTelExternalTrigger" where
  "encode_trigger trig =
     \<lparr>ext_timestamp = trigger_timestamp trig, ext_label = trigger_tag trig\<rparr>"

definition encode_tot :: "RawTimeOverThreshold \<Rightarrow> EUTelExternalTrigger" where
  "encode_tot tot =
     \<lparr>ext_timestamp =
        push_bit 8 (tot_timestamp tot AND 0xFFFFFFFFFFFF) OR (ucast (tot_length tot) AND 0xFF),
      ext_label = 0x2\<rparr>"

definition make_pixel :: "64 word \<Rightarrow> RawHit \<Rightarrow> EUTelMuPixel" where
  "make_pixel frame_time hit =
     \<lparr>pixel_x = hit_row hit,
      pixel_y = hit_column hit,
      pixel_signal = 1,
      pixel_time = 0,
      pixel_hit_time = hit_timestamp_raw hit,
      pixel_frame_time = frame_time AND 0xFFFFFFFF\<rparr>"

definition in_sensor :: "RawHit \<Rightarrow> bool" where
  "in_sensor hit \<longleftrightarrow>
     hit_row hit < MUPIX_SENSOR_NUM_COLS \<and> hit_column hit < MUPIX_SENSOR_NUM_ROWS"

subsection \<open>The loops over one decoded block\<close>

fun trigger_loop :: "RawTrigger list \<Rightarrow> merge_state \<Rightarrow> merge_state" where
  "trigger_loop [] s = s"
| "trigger_loop (trig # rest) s =
     trigger_loop rest
       (s\<lparr>trigger_frame := addExternalTrigger (encode_trigger trig) (trigger_frame s)\<rparr>)"

fun tot_loop :: "RawTimeOverThreshold list \<Rightarrow> merge_state \<Rightarrow> merge_state" where
  "tot_loop [] s = s"
| "tot_loop (tot # rest) s =
     tot_loop rest (s\<lparr>tot_frame := addExternalTrigger (encode_tot tot) (tot_frame s)\<rparr>)"

fun hit_loop :: "64 word \<Rightarrow> RawHit list \<Rightarrow> merge_state \<Rightarrow> merge_state" where
  "hit_loop ts [] s = s"
| "hit_loop ts (hit # rest) s =
     hit_loop ts rest
       (if in_sensor hit
        then s\<lparr>mupix_frame := addSparsePixel (make_pixel ts hit) (mupix_frame s)\<rparr>
        else s\<lparr>cout := cout s @ [COUT_WARNING (hit_row hit) (hit_column hit)]\<rparr>)"

definition convert_block :: "TelescopeFrame \<Rightarrow> merge_state \<Rightarrow> merge_state" where
  "convert_block data s =
     hit_loop (frame_timestamp data) (frame_hits data)
       (tot_loop (frame_tots data) (trigger_loop (frame_triggers data) s))"

fun block_loop :: "decoder \<Rightarrow> RawDataBlock list \<Rightarrow> merge_state \<Rightarrow> merge_state" where
  "block_loop from_bytes [] s = s"
| "block_loop from_bytes (b # rest) s =
     block_loop from_bytes rest (convert_block (from_bytes (block_data b)) s)"

subsection \<open>Looking up, filling and registering the output collections\<close>

text \<open>
  \<open>getCollection\<close> either finds the collection of that name in the event or throws
  \<open>DataNotAvailableException\<close>, in which case a new, empty collection is allocated that
  the event does not know yet. A \<open>push_back\<close> on a collection found in the event writes
  through the pointer into the event.
\<close>

definition lookup_or_create :: "LCEvent \<Rightarrow> string \<Rightarrow> LCCollectionVec \<times> bool" where
  "lookup_or_create dest name =
     (case dest name of Some collection \<Rightarrow> (collection, True) | None \<Rightarrow> ([], False))"

definition push_back ::
  "string \<Rightarrow> bool \<Rightarrow> LCCollectionVec \<Rightarrow> TrackerDataImpl \<Rightarrow> LCEvent \<Rightarrow> LCEvent" where
  "push_back name collection_exists collection frame dest =
     (if collection_exists then dest(name \<mapsto> collection @ [frame]) else dest)"

definition add_or_fail ::
  "string \<Rightarrow> string \<Rightarrow> bool \<Rightarrow> LCCollectionVec \<Rightarrow> LCEvent \<times> diagnostic list
     \<Rightarrow> LCEvent \<times> diagnostic list" where
  "add_or_fail name message collection_exists collection st =
     (if \<not> collection_exists \<and> length collection \<noteq> 0
      then ((fst st)(name \<mapsto> collection), snd st)
      else (fst st, snd st @ [COUT message]))"

definition hand_over :: "LCEvent \<Rightarrow> merge_state \<Rightarrow> LCEvent \<times> diagnostic list \<times> outcome" where
  "hand_over dest s =
     (let mupix = lookup_or_create dest MUPIX_COLLECTION_NAME;
          trigger = lookup_or_create dest TRIGGER_COLLECTION_NAME;
          tot = lookup_or_create dest TOT_COLLECTION_NAME;
          mupix_collection = fst mupix @ [mupix_frame s];
          trigger_collection = fst trigger @ [trigger_frame s];
          tot_collection = fst tot @ [tot_frame s];
          dest1 = push_back MUPIX_COLLECTION_NAME (snd mupix) (fst mupix) (mupix_frame s) dest;
          dest2 = push_back TRIGGER_COLLECTION_NAME (snd trigger) (fst trigger)
                    (trigger_frame s) dest1;
          dest3 = push_back TOT_COLLECTION_NAME (snd tot) (fst tot) (tot_frame s) dest2;
          st1 = add_or_fail MUPIX_COLLECTION_NAME
                  ''FAILED to convert Mupix event to RawDataEvent''
                  (snd mupix) mupix_collection (dest3, cout s);
          st2 = add_or_fail TRIGGER_COLLECTION_NAME
                  ''FAILED to convert trigger event to RawDataEvent''
                  (snd trigger) trigger_collection st1;
          st3 = add_or_fail TOT_COLLECTION_NAME
                  ''FAILED to convert tot event to RawDataEvent''
                  (snd tot) tot_collection st2
      in (fst st3, snd st3, Returns True))"

subsection \<open>The aggregation entry points\<close>

definition GetLCIOSubEvent2 ::
  "decoder \<Rightarrow> LCEvent \<Rightarrow> Event \<Rightarrow> Event \<Rightarrow> LCEvent \<times> diagnostic list \<times> outcome" where
  "GetLCIOSubEvent2 from_bytes dest ev next =
     (if IsBORE ev then (dest, [EUDAQ_ERROR ''got BORE during lcio conversion''], Returns True)
      else if IsEORE ev
      then (dest, [EUDAQ_WARN ''got EORE during lcio conversion''], Returns True)
      else
        (case ev of
          RawDataEvent _ _ source \<Rightarrow>
            (case next of
              RawDataEvent _ _ next_source \<Rightarrow>
                hand_over dest
                  (block_loop from_bytes next_source (block_loop from_bytes source new_frames))
            | OtherEvent _ _ \<Rightarrow> (dest, [], Returns True))
        | OtherEvent _ _ \<Rightarrow> (dest, [], Returns True)))"

definition GetLCIOSubEvent3 ::
  "decoder \<Rightarrow> LCEvent \<Rightarrow> Event \<Rightarrow> Event \<Rightarrow> Event
     \<Rightarrow> LCEvent \<times> diagnostic list \<times> outcome" where
  "GetLCIOSubEvent3 from_bytes dest ev next nextNext =
     (if IsBORE ev then (dest, [EUDAQ_ERROR ''got BORE during lcio conversion''], Returns True)
      else if IsEORE ev
      then (dest, [EUDAQ_WARN ''got EORE during lcio conversion''], Returns True)
      else
        (case ev of
          RawDataEvent _ _ source \<Rightarrow>
            (case next of
              RawDataEvent _ _ next_source \<Rightarrow>
                (case nextNext of
                  RawDataEvent _ _ nextNext_source \<Rightarrow>
                    hand_over dest
                      (block_loop from_bytes nextNext_source
                        (block_loop from_bytes next_source
                          (block_loop from_bytes source new_frames)))
                | OtherEvent _ _ \<Rightarrow> (dest, [], Returns True))
            | OtherEvent _ _ \<Rightarrow> (dest, [], Returns True))
        | OtherEvent _ _ \<Rightarrow> (dest, [], Returns True)))"

subsection \<open>The quick-look path\<close>

text \<open>
  Modelled from the spec: \<open>StandardPlane\<close> and \<open>StandardEvent\<close> (eudaq/StandardEvent.hh)
  are not among the sources. A plane is its identification, the declared header (columns,
  rows, hit count), the trigger id and a position-indexed sparse pixel list; \<open>SetSizeZS\<close>
  declares the header and leaves every position unset, \<open>SetPixel\<close> sets one position, and
  \<open>AddPlane\<close> attaches a plane to the event, after those already attached.
\<close>

record StandardPlane =
  plane_id :: nat
  plane_type :: string
  plane_sensor :: string
  plane_xsize :: "32 word"
  plane_ysize :: "32 word"
  plane_npix :: nat
  plane_tluevent :: "32 word"
  plane_pixels :: "nat \<rightharpoonup> 32 word \<times> 32 word \<times> nat"

type_synonym StandardEvent = "StandardPlane list"

definition new_StandardPlane :: "nat \<Rightarrow> string \<Rightarrow> string \<Rightarrow> StandardPlane" where
  "new_StandardPlane ident type sensor =
     \<lparr>plane_id = ident, plane_type = type, plane_sensor = sensor,
      plane_xsize = 0, plane_ysize = 0, plane_npix = 0, plane_tluevent = 0,
      plane_pixels = Map.empty\<rparr>"

definition SetSizeZS :: "32 word \<Rightarrow> 32 word \<Rightarrow> nat \<Rightarrow> StandardPlane \<Rightarrow> StandardPlane" where
  "SetSizeZS w h npix plane =
     plane\<lparr>plane_xsize := w, plane_ysize := h, plane_npix := npix, plane_pixels := Map.empty\<rparr>"

definition SetTLUEvent :: "32 word \<Rightarrow> StandardPlane \<Rightarrow> StandardPlane" where
  "SetTLUEvent ev plane = plane\<lparr>plane_tluevent := ev\<rparr>"

definition SetPixel ::
  "nat \<Rightarrow> 32 word \<Rightarrow> 32 word \<Rightarrow> nat \<Rightarrow> StandardPlane \<Rightarrow> StandardPlane" where
  "SetPixel index x y pix plane =
     plane\<lparr>plane_pixels := (plane_pixels plane)(index \<mapsto> (x, y, pix))\<rparr>"

definition AddPlane :: "StandardPlane \<Rightarrow> StandardEvent \<Rightarrow> StandardEvent" where
  "AddPlane plane dest = dest @ [plane]"

text \<open>
  Block access of \<open>RawDataEvent\<close>: \<open>GetID(i)\<close> with the range check of the block vector.
  The argument \<open>NumBlocks() - 1\<close> is computed in \<open>size_t\<close>, so it wraps to the largest
  64-bit value on an event without blocks.
\<close>

definition GetID :: "RawDataBlock list \<Rightarrow> nat \<Rightarrow> 32 word option" where
  "GetID blocks i = (if i < length blocks then Some (block_id (blocks ! i)) else None)"

definition NumBlocks_minus_1 :: "RawDataBlock list \<Rightarrow> nat" where
  "NumBlocks_minus_1 blocks = (if length blocks = 0 then 2 ^ 64 - 1 else length blocks - 1)"

text \<open>First pass: the total number of hits of all blocks.\<close>

fun count_hits :: "decoder \<Rightarrow> RawDataBlock list \<Rightarrow> nat \<Rightarrow> nat" where
  "count_hits from_bytes [] nhits = nhits"
| "count_hits from_bytes (b # rest) nhits =
     count_hits from_bytes rest (nhits + length (frame_hits (from_bytes (block_data b))))"

text \<open>
  Second pass, inner loop: the hits of one block from position \<open>j\<close> on. The index
  \<open>nhits + j\<close> is a 64-bit sum passed to an \<open>unsigned\<close> parameter.
\<close>

fun pixel_loop :: "RawHit list \<Rightarrow> nat \<Rightarrow> nat \<Rightarrow> StandardPlane \<Rightarrow> StandardPlane" where
  "pixel_loop [] j nhits plane = plane"
| "pixel_loop (hit # rest) j nhits plane =
     (let col = hit_column hit; row = hit_row hit
      in pixel_loop rest (j + 1) nhits
           (if \<not> (col = 0 \<and> row = 0) \<or> col > 31 \<or> row > 39
            then SetPixel ((nhits + j) mod 2 ^ 32) row col MUPIX_SENSOR_BINARY_SIGNAL plane
            else plane))"

fun fill_plane :: "decoder \<Rightarrow> RawDataBlock list \<Rightarrow> nat \<Rightarrow> StandardPlane \<Rightarrow> StandardPlane" where
  "fill_plane from_bytes [] nhits plane = plane"
| "fill_plane from_bytes (b # rest) nhits plane =
     (let data = from_bytes (block_data b)
      in fill_plane from_bytes rest (nhits + length (frame_hits data))
           (pixel_loop (frame_hits data) 0 nhits plane))"

text \<open>
  The entry point. The trailing block's id is read three times in the source (for the
  plane's trigger id, for the comparison with 100 and for the substitute plane); the first
  read is the one that can fail, on an event without blocks, and nothing has been attached
  by then.
\<close>

definition GetStandardSubEvent ::
  "decoder \<Rightarrow> StandardEvent \<Rightarrow> Event \<Rightarrow> StandardEvent \<times> diagnostic list \<times> outcome" where
  "GetStandardSubEvent from_bytes dest ev =
     (case ev of
       RawDataEvent bore eore source \<Rightarrow>
         if bore then (dest, [EUDAQ_ERROR ''got BORE during conversion''], Returns True)
         else if eore then (dest, [EUDAQ_WARN ''got EORE during conversion''], Returns True)
         else
           (let plane = new_StandardPlane MUPIX_SENSOR_ID MUPIX_EVENT_TYPE MUPIX_SENSOR_TYPE;
                nhits = count_hits from_bytes source 0;
                plane = SetSizeZS MUPIX_SENSOR_NUM_COLS MUPIX_SENSOR_NUM_ROWS
                          (nhits mod 2 ^ 32) plane
            in case GetID source (NumBlocks_minus_1 source) of
                 None \<Rightarrow> (dest, [], OutOfRange)
               | Some tlu \<Rightarrow>
                   (let plane = SetTLUEvent tlu plane;
                        plane = fill_plane from_bytes source 0 plane
                    in if tlu > 100 then (AddPlane plane dest, [], Returns True)
                       else
                         (let plane2 =
                                new_StandardPlane MUPIX_SENSOR_ID MUPIX_EVENT_TYPE
                                  MUPIX_SENSOR_TYPE;
                              plane2 = SetSizeZS MUPIX_SENSOR_NUM_COLS MUPIX_SENSOR_NUM_ROWS
                                         0 plane2;
                              plane2 = SetTLUEvent tlu plane2
                          in (AddPlane plane2 dest, [], Returns True))))
     | OtherEvent _ _ \<Rightarrow> (dest, [], NoReturnValue))"

text \<open>
  Names for the two planes of the entry point, as functions of the trigger id \<open>tlu\<close> read
  from the trailing block: the local \<open>plane\<close> after both passes, and the local
  \<open>plane2\<close> that is attached in its place when the id is not above 100.
\<close>

definition populated_plane :: "decoder \<Rightarrow> RawDataBlock list \<Rightarrow> 32 word \<Rightarrow> StandardPlane" where
  "populated_plane from_bytes source tlu =
     (let plane = new_StandardPlane MUPIX_SENSOR_ID MUPIX_EVENT_TYPE MUPIX_SENSOR_TYPE;
          nhits = count_hits from_bytes source 0;
          plane = SetSizeZS MUPIX_SENSOR_NUM_COLS MUPIX_SENSOR_NUM_ROWS (nhits mod 2 ^ 32) plane;
          plane = SetTLUEvent tlu plane
      in fill_plane from_bytes source 0 plane)"

definition empty_plane :: "32 word \<Rightarrow> StandardPlane" where
  "empty_plane tlu =
     (let plane2 = new_StandardPlane MUPIX_SENSOR_ID MUPIX_EVENT_TYPE MUPIX_SENSOR_TYPE;
          plane2 = SetSizeZS MUPIX_SENSOR_NUM_COLS MUPIX_SENSOR_NUM_ROWS 0 plane2
      in SetTLUEvent tlu plane2)"

text \<open>
  Two names for the proofs about the second pass: what \<open>SetPixel\<close> stores for a hit, and
  the hits the filter suppresses (for a column and a row that are both 0 the two range
  tests of the filter are false).
\<close>

definition stored :: "RawHit \<Rightarrow> 32 word \<times> 32 word \<times> nat" where
  "stored hit = (hit_row hit, hit_column hit, MUPIX_SENSOR_BINARY_SIGNAL)"

definition origin :: "RawHit \<Rightarrow> bool" where
  "origin hit \<longleftrightarrow> hit_column hit = 0 \<and> hit_row hit = 0"

subsection \<open>The records the specification describes\<close>

text \<open>
  The decoded frames of a window in arrival order (frame order, then block order), and the
  three records and the warnings as the specification words them: every trigger and every
  time-over-threshold entry encoded, every hit inside the sensor turned into a pixel entry,
  every other hit turned into a warning, all in arrival order.
\<close>

definition window_frames :: "decoder \<Rightarrow> RawDataBlock list \<Rightarrow> TelescopeFrame list" where
  "window_frames from_bytes blocks = map (\<lambda>b. from_bytes (block_data b)) blocks"

definition spec_pixel_record :: "TelescopeFrame list \<Rightarrow> EUTelMuPixel list" where
  "spec_pixel_record frames =
     concat (map (\<lambda>data. map (make_pixel (frame_timestamp data))
                           (filter in_sensor (frame_hits data))) frames)"

definition spec_trigger_record :: "TelescopeFrame list \<Rightarrow> EUTelExternalTrigger list" where
  "spec_trigger_record frames =
     concat (map (\<lambda>data. map encode_trigger (frame_triggers data)) frames)"

definition spec_tot_record :: "TelescopeFrame list \<Rightarrow> EUTelExternalTrigger list" where
  "spec_tot_record frames = concat (map (\<lambda>data. map encode_tot (frame_tots data)) frames)"

definition hit_warning :: "RawHit \<Rightarrow> diagnostic" where
  "hit_warning hit = COUT_WARNING (hit_row hit) (hit_column hit)"

definition spec_warnings :: "TelescopeFrame list \<Rightarrow> diagnostic list" where
  "spec_warnings frames =
     concat (map (\<lambda>data. map hit_warning (filter (\<lambda>hit. \<not> in_sensor hit) (frame_hits data)))
               frames)"

definition decoded_hits :: "decoder \<Rightarrow> RawDataBlock list \<Rightarrow> RawHit list" where
  "decoded_hits from_bytes blocks =
     concat (map (\<lambda>b. frame_hits (from_bytes (block_data b))) blocks)"

text \<open>
  The collection of a name before the call (empty when the event has none), and the
  failure messages of the streams whose collection the event already holds, in the order
  pixel, trigger, time-over-threshold.
\<close>

definition existing :: "LCEvent \<Rightarrow> string \<Rightarrow> LCCollectionVec" where
  "existing dest name = (case dest name of Some collection \<Rightarrow> collection | None \<Rightarrow> [])"

definition failure_messages :: "LCEvent \<Rightarrow> diagnostic list" where
  "failure_messages dest =
     (if dest MUPIX_COLLECTION_NAME = None then []
      else [COUT ''FAILED to convert Mupix event to RawDataEvent''])
     @ (if dest TRIGGER_COLLECTION_NAME = None then []
        else [COUT ''FAILED to convert trigger event to RawDataEvent''])
     @ (if dest TOT_COLLECTION_NAME = None then []
        else [COUT ''FAILED to convert tot event to RawDataEvent''])"

subsection \<open>Example inputs\<close>

text \<open>
  A block whose first byte is \<open>k\<close> decodes to a frame with timestamp \<open>2 ^ 32 + k\<close>,
  three hits (the degenerate one at the origin, one inside the sensor, one with a row
  beyond it), one trigger and one time-over-threshold entry; an empty block decodes to
  nothing.
\<close>

definition no_frame :: TelescopeFrame where
  "no_frame = \<lparr>frame_timestamp = 0, frame_hits = [], frame_triggers = [], frame_tots = []\<rparr>"

definition example_frame :: "8 word \<Rightarrow> TelescopeFrame" where
  "example_frame k =
     \<lparr>frame_timestamp = 0x100000000 + ucast k,
      frame_hits =
        [\<lparr>hit_column = 0, hit_row = 0, hit_timestamp_raw = 9\<rparr>,
         \<lparr>hit_column = 10, hit_row = 5, hit_timestamp_raw = 17\<rparr>,
         \<lparr>hit_column = 3, hit_row = 45, hit_timestamp_raw = 2\<rparr>],
      frame_triggers = [\<lparr>trigger_timestamp = 100, trigger_tag = 0x1\<rparr>],
      frame_tots = [\<lparr>tot_timestamp = 200, tot_length = 3\<rparr>]\<rparr>"

fun example_decoder :: decoder where
  "example_decoder [] = no_frame"
| "example_decoder (k # rest) = example_frame k"

definition example_block :: "32 word \<Rightarrow> RawDataBlock" where
  "example_block ident = \<lparr>block_id = ident, block_data = [ucast ident]\<rparr>"

definition example_event :: "32 word \<Rightarrow> Event" where
  "example_event ident = RawDataEvent False False [example_block ident]"

definition empty_event :: Event where
  "empty_event = RawDataEvent False False []"

definition no_collections :: LCEvent where
  "no_collections = Map.empty"

definition trigger_collection_only :: LCEvent where
  "trigger_collection_only = no_collections(TRIGGER_COLLECTION_NAME \<mapsto> [new_trigger_frame])"

section \<open>Properties\<close>

subsection \<open>Time-over-threshold encoding\<close>

lemma mask48_small:
  fixes t :: "64 word"
  assumes "t < 2 ^ 48"
  shows "t AND 0xFFFFFFFFFFFF = t"
proof -
  have "t AND mask 48 = t"
    using assms by (simp add: less_mask_eq)
  then show ?thesis by (simp add: mask_eq_exp_minus_1)
qed

lemma bit8: "bit (l :: 8 word) n \<Longrightarrow> n < 8"
  using bit_imp_le_length[of l n] by simp

lemma tot_low_byte:
  fixes t :: "64 word" and l :: "8 word"
  shows "ucast (push_bit 8 t OR (ucast l AND 0xFF) :: 64 word) = l"
proof -
  have m: "(0xFF :: 64 word) = mask 8" by (simp add: mask_eq_exp_minus_1)
  show ?thesis unfolding m
    apply (rule bit_word_eqI)
    apply (auto simp add: bit_simps dest: bit8)
    done
qed

lemma tot_low_and:
  fixes t :: "64 word" and l :: "8 word"
  shows "(push_bit 8 t OR (ucast l AND 0xFF)) AND 0xFF = (ucast l :: 64 word)"
proof -
  have m: "(0xFF :: 64 word) = mask 8" by (simp add: mask_eq_exp_minus_1)
  show ?thesis unfolding m
    apply (rule bit_word_eqI)
    apply (auto simp add: bit_simps dest: bit8)
    done
qed

lemma tot_high:
  fixes t :: "64 word" and l :: "8 word"
  assumes "t < 2 ^ 48"
  shows "drop_bit 8 (push_bit 8 (t AND 0xFFFFFFFFFFFF) OR (ucast l AND 0xFF)) = t"
proof -
  have m: "(0xFF :: 64 word) = mask 8" by (simp add: mask_eq_exp_minus_1)
  have "t AND mask 48 = t"
    using assms by (simp add: less_mask_eq)
  then have b: "bit t n \<Longrightarrow> n < 48" for n
    by (metis bit_and_iff bit_mask_iff)
  show ?thesis unfolding mask48_small[OF assms] m
    apply (rule bit_word_eqI)
    apply (auto simp add: bit_simps dest: b bit8)
    done
qed

lemma mask48_wrap: "(2 ^ 48 :: 64 word) AND 0xFFFFFFFFFFFF = 0"
  by simp

subsection \<open>The merge loops in closed form\<close>

lemma trigger_loop_eq:
  "trigger_loop ts s =
     s\<lparr>trigger_frame := (trigger_frame s)\<lparr>external_triggers :=
          external_triggers (trigger_frame s) @ map encode_trigger ts\<rparr>\<rparr>"
  by (induction ts arbitrary: s) (simp_all add: addExternalTrigger_def)

lemma tot_loop_eq:
  "tot_loop ts s =
     s\<lparr>tot_frame := (tot_frame s)\<lparr>external_triggers :=
          external_triggers (tot_frame s) @ map encode_tot ts\<rparr>\<rparr>"
  by (induction ts arbitrary: s) (simp_all add: addExternalTrigger_def)

lemma hit_loop_eq:
  "hit_loop ts hs s =
     s\<lparr>mupix_frame := (mupix_frame s)\<lparr>sparse_pixels :=
          sparse_pixels (mupix_frame s) @ map (make_pixel ts) (filter in_sensor hs)\<rparr>,
       cout := cout s @ map hit_warning (filter (\<lambda>hit. \<not> in_sensor hit) hs)\<rparr>"
  by (induction hs arbitrary: s) (simp_all add: addSparsePixel_def hit_warning_def)

lemma block_loop_eq:
  "block_loop dec bs s =
     s\<lparr>mupix_frame := (mupix_frame s)\<lparr>sparse_pixels :=
          sparse_pixels (mupix_frame s) @ spec_pixel_record (window_frames dec bs)\<rparr>,
       trigger_frame := (trigger_frame s)\<lparr>external_triggers :=
          external_triggers (trigger_frame s) @ spec_trigger_record (window_frames dec bs)\<rparr>,
       tot_frame := (tot_frame s)\<lparr>external_triggers :=
          external_triggers (tot_frame s) @ spec_tot_record (window_frames dec bs)\<rparr>,
       cout := cout s @ spec_warnings (window_frames dec bs)\<rparr>"
  by (induction bs arbitrary: s)
     (simp_all add: convert_block_def trigger_loop_eq tot_loop_eq hit_loop_eq
        window_frames_def spec_pixel_record_def spec_trigger_record_def spec_tot_record_def
        spec_warnings_def)

lemma block_loop_append:
  "block_loop dec (bs @ cs) s = block_loop dec cs (block_loop dec bs s)"
  by (induction bs arbitrary: s) simp_all

lemma merge_eq:
  "block_loop dec bs new_frames =
     \<lparr>mupix_frame = new_mupix_frame\<lparr>sparse_pixels := spec_pixel_record (window_frames dec bs)\<rparr>,
      trigger_frame =
        new_trigger_frame\<lparr>external_triggers := spec_trigger_record (window_frames dec bs)\<rparr>,
      tot_frame = new_trigger_frame\<lparr>external_triggers := spec_tot_record (window_frames dec bs)\<rparr>,
      cout = spec_warnings (window_frames dec bs)\<rparr>"
  by (simp add: block_loop_eq new_frames_def new_mupix_frame_def new_trigger_frame_def)

subsection \<open>The hand-over to the collections\<close>

lemma names_distinct:
  "MUPIX_COLLECTION_NAME \<noteq> TRIGGER_COLLECTION_NAME"
  "MUPIX_COLLECTION_NAME \<noteq> TOT_COLLECTION_NAME"
  "TRIGGER_COLLECTION_NAME \<noteq> TOT_COLLECTION_NAME"
  "TRIGGER_COLLECTION_NAME \<noteq> MUPIX_COLLECTION_NAME"
  "TOT_COLLECTION_NAME \<noteq> MUPIX_COLLECTION_NAME"
  "TOT_COLLECTION_NAME \<noteq> TRIGGER_COLLECTION_NAME"
  by (simp_all add: MUPIX_COLLECTION_NAME_def TRIGGER_COLLECTION_NAME_def
        TOT_COLLECTION_NAME_def)

lemma hand_over_eq:
  "hand_over dest s =
     (dest(MUPIX_COLLECTION_NAME \<mapsto> existing dest MUPIX_COLLECTION_NAME @ [mupix_frame s],
           TRIGGER_COLLECTION_NAME \<mapsto> existing dest TRIGGER_COLLECTION_NAME @ [trigger_frame s],
           TOT_COLLECTION_NAME \<mapsto> existing dest TOT_COLLECTION_NAME @ [tot_frame s]),
      cout s @ failure_messages dest, Returns True)"
  unfolding hand_over_def Let_def lookup_or_create_def push_back_def add_or_fail_def
    existing_def failure_messages_def
  by (cases "dest MUPIX_COLLECTION_NAME"; cases "dest TRIGGER_COLLECTION_NAME";
      cases "dest TOT_COLLECTION_NAME")
     (auto simp add: names_distinct fun_upd_twist)

lemma GetLCIOSubEvent2_window:
  "GetLCIOSubEvent2 dec dest (RawDataEvent False False source) (RawDataEvent b e next_source) =
     hand_over dest (block_loop dec (source @ next_source) new_frames)"
  by (simp add: GetLCIOSubEvent2_def block_loop_append)

lemma GetLCIOSubEvent3_window:
  "GetLCIOSubEvent3 dec dest (RawDataEvent False False source) (RawDataEvent b e next_source)
       (RawDataEvent b' e' nextNext_source) =
     hand_over dest (block_loop dec (source @ next_source @ nextNext_source) new_frames)"
  by (simp add: GetLCIOSubEvent3_def block_loop_append)

lemma hand_over_merge:
  "hand_over dest (block_loop dec bs new_frames) =
     (dest(MUPIX_COLLECTION_NAME \<mapsto> existing dest MUPIX_COLLECTION_NAME @
             [new_mupix_frame\<lparr>sparse_pixels := spec_pixel_record (window_frames dec bs)\<rparr>],
           TRIGGER_COLLECTION_NAME \<mapsto> existing dest TRIGGER_COLLECTION_NAME @
             [new_trigger_frame\<lparr>external_triggers :=
                spec_trigger_record (window_frames dec bs)\<rparr>],
           TOT_COLLECTION_NAME \<mapsto> existing dest TOT_COLLECTION_NAME @
             [new_trigger_frame\<lparr>external_triggers := spec_tot_record (window_frames dec bs)\<rparr>]),
      spec_warnings (window_frames dec bs) @ failure_messages dest, Returns True)"
  by (simp add: hand_over_eq merge_eq)

lemma GetLCIOSubEvent2_closed:
  "GetLCIOSubEvent2 dec dest (RawDataEvent False False source) (RawDataEvent b e next_source) =
     (dest(MUPIX_COLLECTION_NAME \<mapsto> existing dest MUPIX_COLLECTION_NAME @
             [new_mupix_frame\<lparr>sparse_pixels :=
                spec_pixel_record (window_frames dec (source @ next_source))\<rparr>],
           TRIGGER_COLLECTION_NAME \<mapsto> existing dest TRIGGER_COLLECTION_NAME @
             [new_trigger_frame\<lparr>external_triggers :=
                spec_trigger_record (window_frames dec (source @ next_source))\<rparr>],
           TOT_COLLECTION_NAME \<mapsto> existing dest TOT_COLLECTION_NAME @
             [new_trigger_frame\<lparr>external_triggers :=
                spec_tot_record (window_frames dec (source @ next_source))\<rparr>]),
      spec_warnings (window_frames dec (source @ next_source)) @ failure_messages dest,
      Returns True)"
  by (simp only: GetLCIOSubEvent2_window hand_over_merge)

lemma GetLCIOSubEvent3_closed:
  "GetLCIOSubEvent3 dec dest (RawDataEvent False False source) (RawDataEvent b e next_source)
       (RawDataEvent b' e' nextNext_source) =
     (dest(MUPIX_COLLECTION_NAME \<mapsto> existing dest MUPIX_COLLECTION_NAME @
             [new_mupix_frame\<lparr>sparse_pixels :=
                spec_pixel_record (window_frames dec (source @ next_source @ nextNext_source))\<rparr>],
           TRIGGER_COLLECTION_NAME \<mapsto> existing dest TRIGGER_COLLECTION_NAME @
             [new_trigger_frame\<lparr>external_triggers :=
                spec_trigger_record
                  (window_frames dec (source @ next_source @ nextNext_source))\<rparr>],
           TOT_COLLECTION_NAME \<mapsto> existing dest TOT_COLLECTION_NAME @
             [new_trigger_frame\<lparr>external_triggers :=
                spec_tot_record (window_frames dec (source @ next_source @ nextNext_source))\<rparr>]),
      spec_warnings (window_frames dec (source @ next_source @ nextNext_source))
        @ failure_messages dest,
      Returns True)"
  by (simp only: GetLCIOSubEvent3_window hand_over_merge)

lemmas example_defs =
  example_frame_def example_block_def example_event_def empty_event_def
  no_collections_def no_frame_def window_frames_def spec_pixel_record_def
  spec_trigger_record_def spec_tot_record_def spec_warnings_def hit_warning_def
  make_pixel_def in_sensor_def encode_trigger_def encode_tot_def
  MUPIX_SENSOR_NUM_COLS_def MUPIX_SENSOR_NUM_ROWS_def existing_def failure_messages_def
  new_mupix_frame_def new_trigger_frame_def MUPIX_SENSOR_ID_def

subsection \<open>Claims about the aggregation path\<close>

text \<open>
  C1. In both aggregation entry points, for a window of raw events whose first member is
  no run marker, the pixel record appended to the pixel collection holds exactly the pixel
  entries of the hits with \<open>row() < 40\<close> and \<open>column() < 32\<close> (the row is the first
  stored coordinate, the column the second), one entry per such hit, in arrival order:
  frame order, then block order, then the order inside the block. Every other hit adds no
  entry and only writes one warning line; the call still returns \<open>true\<close>.
\<close>

theorem C1_pixels_in_arrival_order:
  "fst (GetLCIOSubEvent2 dec dest (RawDataEvent False False source)
          (RawDataEvent b e next_source)) MUPIX_COLLECTION_NAME =
     Some (existing dest MUPIX_COLLECTION_NAME @
       [new_mupix_frame\<lparr>sparse_pixels :=
          spec_pixel_record (window_frames dec (source @ next_source))\<rparr>])
   \<and> snd (GetLCIOSubEvent2 dec dest (RawDataEvent False False source)
            (RawDataEvent b e next_source)) =
       (spec_warnings (window_frames dec (source @ next_source)) @ failure_messages dest,
        Returns True)
   \<and> fst (GetLCIOSubEvent3 dec dest (RawDataEvent False False source)
            (RawDataEvent b e next_source) (RawDataEvent b' e' nextNext_source))
         MUPIX_COLLECTION_NAME =
       Some (existing dest MUPIX_COLLECTION_NAME @
         [new_mupix_frame\<lparr>sparse_pixels :=
            spec_pixel_record (window_frames dec (source @ next_source @ nextNext_source))\<rparr>])
   \<and> snd (GetLCIOSubEvent3 dec dest (RawDataEvent False False source)
            (RawDataEvent b e next_source) (RawDataEvent b' e' nextNext_source)) =
       (spec_warnings (window_frames dec (source @ next_source @ nextNext_source))
          @ failure_messages dest,
        Returns True)"
  by (simp add: GetLCIOSubEvent2_closed GetLCIOSubEvent3_closed names_distinct)

theorem C1_witness:
  "fst (GetLCIOSubEvent2 example_decoder no_collections (example_event 1) (example_event 2))
     MUPIX_COLLECTION_NAME =
     Some [\<lparr>cell_sensorID = 71, cell_sparsePixelType = Some kEUTelMuPixel,
            sparse_pixels =
              [\<lparr>pixel_x = 0, pixel_y = 0, pixel_signal = 1, pixel_time = 0,
                pixel_hit_time = 9, pixel_frame_time = 1\<rparr>,
               \<lparr>pixel_x = 5, pixel_y = 10, pixel_signal = 1, pixel_time = 0,
                pixel_hit_time = 17, pixel_frame_time = 1\<rparr>,
               \<lparr>pixel_x = 0, pixel_y = 0, pixel_signal = 1, pixel_time = 0,
                pixel_hit_time = 9, pixel_frame_time = 2\<rparr>,
               \<lparr>pixel_x = 5, pixel_y = 10, pixel_signal = 1, pixel_time = 0,
                pixel_hit_time = 17, pixel_frame_time = 2\<rparr>],
            external_triggers = []\<rparr>]
   \<and> snd (GetLCIOSubEvent2 example_decoder no_collections (example_event 1) (example_event 2)) =
       ([COUT_WARNING 45 3, COUT_WARNING 45 3], Returns True)"
  using C1_pixels_in_arrival_order [of example_decoder no_collections "[example_block 1]"
      False False "[example_block 2]"]
  by (simp add: example_defs)

text \<open>
  C2. For a window of raw events without any block the three records are empty, each is
  appended to its collection, and the call returns \<open>true\<close>. A stream reports a failure
  exactly when its collection was in the event before the call; a stream whose collection
  was created by the call is registered with the event and reports nothing, since the
  emptiness test looks at the collection after the record has been appended.
\<close>

theorem C2_empty_window:
  "GetLCIOSubEvent2 dec dest (RawDataEvent False False []) (RawDataEvent b e []) =
     (dest(MUPIX_COLLECTION_NAME \<mapsto> existing dest MUPIX_COLLECTION_NAME @ [new_mupix_frame],
           TRIGGER_COLLECTION_NAME \<mapsto> existing dest TRIGGER_COLLECTION_NAME @ [new_trigger_frame],
           TOT_COLLECTION_NAME \<mapsto> existing dest TOT_COLLECTION_NAME @ [new_trigger_frame]),
      failure_messages dest, Returns True)
   \<and> GetLCIOSubEvent3 dec dest (RawDataEvent False False []) (RawDataEvent b e [])
       (RawDataEvent b' e' []) =
     (dest(MUPIX_COLLECTION_NAME \<mapsto> existing dest MUPIX_COLLECTION_NAME @ [new_mupix_frame],
           TRIGGER_COLLECTION_NAME \<mapsto> existing dest TRIGGER_COLLECTION_NAME @ [new_trigger_frame],
           TOT_COLLECTION_NAME \<mapsto> existing dest TOT_COLLECTION_NAME @ [new_trigger_frame]),
      failure_messages dest, Returns True)
   \<and> sparse_pixels new_mupix_frame = []
   \<and> external_triggers new_trigger_frame = []"
  by (simp add: GetLCIOSubEvent2_closed GetLCIOSubEvent3_closed
        window_frames_def spec_pixel_record_def spec_trigger_record_def spec_tot_record_def
        spec_warnings_def new_mupix_frame_def new_trigger_frame_def)

theorem C2_witness:
  "snd (GetLCIOSubEvent2 example_decoder trigger_collection_only empty_event empty_event) =
     ([COUT ''FAILED to convert trigger event to RawDataEvent''], Returns True)
   \<and> fst (GetLCIOSubEvent2 example_decoder trigger_collection_only empty_event empty_event)
        TRIGGER_COLLECTION_NAME = Some [new_trigger_frame, new_trigger_frame]
   \<and> fst (GetLCIOSubEvent2 example_decoder trigger_collection_only empty_event empty_event)
        TOT_COLLECTION_NAME = Some [new_trigger_frame]"
  using C2_empty_window [of example_decoder trigger_collection_only False False False False]
  by (simp add: empty_event_def trigger_collection_only_def no_collections_def existing_def
        failure_messages_def names_distinct)

text \<open>
  The claim as stated fails on an event without collections: no stream reports a failure,
  and all three collections are registered, each holding one empty record.
\<close>

theorem C2_counterexample:
  "fst (snd (GetLCIOSubEvent2 example_decoder no_collections empty_event empty_event)) = []
   \<and> fst (GetLCIOSubEvent2 example_decoder no_collections empty_event empty_event)
        MUPIX_COLLECTION_NAME = Some [new_mupix_frame]
   \<and> fst (GetLCIOSubEvent2 example_decoder no_collections empty_event empty_event)
        TRIGGER_COLLECTION_NAME = Some [new_trigger_frame]
   \<and> fst (GetLCIOSubEvent2 example_decoder no_collections empty_event empty_event)
        TOT_COLLECTION_NAME = Some [new_trigger_frame]"
  by (simp add: empty_event_def GetLCIOSubEvent2_closed names_distinct
        no_collections_def existing_def failure_messages_def window_frames_def
        spec_pixel_record_def spec_trigger_record_def spec_tot_record_def spec_warnings_def
        new_mupix_frame_def new_trigger_frame_def)

text \<open>
  C3. A decoded trigger with timestamp 100 and tag \<open>0x1\<close> is stored in the trigger
  record as the external trigger with timestamp 100 and label \<open>0x1\<close>: the timestamp is
  carried through unshifted and the tag is the label. The trigger record of a window is
  the triggers of its frames, so encoded, in arrival order.
\<close>

theorem C3_trigger_pair:
  "encode_trigger \<lparr>trigger_timestamp = 100, trigger_tag = 0x1\<rparr> =
     \<lparr>ext_timestamp = 100, ext_label = 0x1\<rparr>
   \<and> ext_timestamp (encode_trigger trig) = trigger_timestamp trig
   \<and> ext_label (encode_trigger trig) = trigger_tag trig
   \<and> fst (GetLCIOSubEvent2 dec dest (RawDataEvent False False source)
            (RawDataEvent b e next_source)) TRIGGER_COLLECTION_NAME =
       Some (existing dest TRIGGER_COLLECTION_NAME @
         [new_trigger_frame\<lparr>external_triggers :=
            spec_trigger_record (window_frames dec (source @ next_source))\<rparr>])
   \<and> fst (GetLCIOSubEvent3 dec dest (RawDataEvent False False source)
            (RawDataEvent b e next_source) (RawDataEvent b' e' nextNext_source))
         TRIGGER_COLLECTION_NAME =
       Some (existing dest TRIGGER_COLLECTION_NAME @
         [new_trigger_frame\<lparr>external_triggers :=
            spec_trigger_record (window_frames dec (source @ next_source @ nextNext_source))\<rparr>])"
  by (simp add: GetLCIOSubEvent2_closed GetLCIOSubEvent3_closed names_distinct
        encode_trigger_def)

theorem C3_witness:
  "fst (GetLCIOSubEvent3 example_decoder no_collections (example_event 1) empty_event
          (example_event 3)) TRIGGER_COLLECTION_NAME =
     Some [\<lparr>cell_sensorID = 1, cell_sparsePixelType = None, sparse_pixels = [],
            external_triggers =
              [\<lparr>ext_timestamp = 100, ext_label = 1\<rparr>, \<lparr>ext_timestamp = 100, ext_label = 1\<rparr>]\<rparr>]"
  using C3_trigger_pair [of "\<lparr>trigger_timestamp = 100, trigger_tag = 1\<rparr>" example_decoder no_collections "[example_block 1]"
      False False "[]" False False "[example_block 3]"]
  by (simp add: example_defs)

text \<open>
  The stored trigger is not the packed value \<open>100 << 8 | 0x1\<close>.
\<close>

theorem C3_counterexample:
  "fst (GetLCIOSubEvent2 example_decoder no_collections (example_event 1) empty_event)
     TRIGGER_COLLECTION_NAME =
     Some [new_trigger_frame\<lparr>external_triggers := [\<lparr>ext_timestamp = 100, ext_label = 1\<rparr>]\<rparr>]
   \<and> ext_timestamp \<lparr>ext_timestamp = 100, ext_label = 1\<rparr> \<noteq> push_bit 8 100 OR 1"
  by (simp add: GetLCIOSubEvent2_closed names_distinct example_defs)

text \<open>
  C4. Every time-over-threshold entry is stored with the timestamp field
  \<open>(timestamp & 0xFFFFFFFFFFFF) << 8 | (length & 0xFF)\<close> and the label \<open>0x2\<close>, and the
  ToT record of a window is its entries, so encoded, in arrival order. A timestamp below
  \<open>2 ^ 48\<close> is recovered by shifting the stored value right by 8, the length is its low
  byte, and the timestamp \<open>2 ^ 48\<close> is masked to 0.
\<close>

theorem C4_tot_encoding:
  "ext_timestamp (encode_tot tot) =
     push_bit 8 (tot_timestamp tot AND 0xFFFFFFFFFFFF) OR (ucast (tot_length tot) AND 0xFF)
   \<and> ext_label (encode_tot tot) = 0x2
   \<and> (tot_timestamp tot < 2 ^ 48 \<longrightarrow>
        drop_bit 8 (ext_timestamp (encode_tot tot)) = tot_timestamp tot)
   \<and> ucast (ext_timestamp (encode_tot tot)) = tot_length tot
   \<and> ext_timestamp (encode_tot tot) AND 0xFF = ucast (tot_length tot)
   \<and> (tot_timestamp tot = 2 ^ 48 \<longrightarrow>
        tot_timestamp tot AND 0xFFFFFFFFFFFF = 0
        \<and> ext_timestamp (encode_tot tot) = ucast (tot_length tot))
   \<and> fst (GetLCIOSubEvent2 dec dest (RawDataEvent False False source)
            (RawDataEvent b e next_source)) TOT_COLLECTION_NAME =
       Some (existing dest TOT_COLLECTION_NAME @
         [new_trigger_frame\<lparr>external_triggers :=
            spec_tot_record (window_frames dec (source @ next_source))\<rparr>])
   \<and> fst (GetLCIOSubEvent3 dec dest (RawDataEvent False False source)
            (RawDataEvent b e next_source) (RawDataEvent b' e' nextNext_source))
         TOT_COLLECTION_NAME =
       Some (existing dest TOT_COLLECTION_NAME @
         [new_trigger_frame\<lparr>external_triggers :=
            spec_tot_record (window_frames dec (source @ next_source @ nextNext_source))\<rparr>])"
proof -
  have ts: "ext_timestamp (encode_tot tot) =
      push_bit 8 (tot_timestamp tot AND 0xFFFFFFFFFFFF) OR (ucast (tot_length tot) AND 0xFF)"
    unfolding encode_tot_def by (simp only: EUTelExternalTrigger.select_convs)
  have label: "ext_label (encode_tot tot) = 0x2"
    unfolding encode_tot_def by (simp only: EUTelExternalTrigger.select_convs)
  have high: "tot_timestamp tot < 2 ^ 48 \<longrightarrow>
      drop_bit 8 (ext_timestamp (encode_tot tot)) = tot_timestamp tot"
    unfolding ts by (rule impI, rule tot_high)
  have low: "ucast (ext_timestamp (encode_tot tot)) = tot_length tot"
    unfolding ts by (rule tot_low_byte)
  have low': "ext_timestamp (encode_tot tot) AND 0xFF = ucast (tot_length tot)"
    unfolding ts by (rule tot_low_and)
  have zero: "(ucast (tot_length tot) :: 64 word) AND 0xFF = ucast (tot_length tot)"
    using tot_low_and [of 0 "tot_length tot"] by simp
  have wrap: "tot_timestamp tot = 2 ^ 48 \<longrightarrow>
      tot_timestamp tot AND 0xFFFFFFFFFFFF = 0
      \<and> ext_timestamp (encode_tot tot) = ucast (tot_length tot)"
    unfolding ts using zero by simp
  have two: "fst (GetLCIOSubEvent2 dec dest (RawDataEvent False False source)
            (RawDataEvent b e next_source)) TOT_COLLECTION_NAME =
       Some (existing dest TOT_COLLECTION_NAME @
         [new_trigger_frame\<lparr>external_triggers :=
            spec_tot_record (window_frames dec (source @ next_source))\<rparr>])"
    by (simp add: GetLCIOSubEvent2_closed names_distinct)
  have three: "fst (GetLCIOSubEvent3 dec dest (RawDataEvent False False source)
            (RawDataEvent b e next_source) (RawDataEvent b' e' nextNext_source))
         TOT_COLLECTION_NAME =
       Some (existing dest TOT_COLLECTION_NAME @
         [new_trigger_frame\<lparr>external_triggers :=
            spec_tot_record (window_frames dec (source @ next_source @ nextNext_source))\<rparr>])"
    by (simp add: GetLCIOSubEvent3_closed names_distinct)
  from ts label high low low' wrap two three show ?thesis
    by (intro conjI)
qed

theorem C4_witness:
  "encode_tot \<lparr>tot_timestamp = 200, tot_length = 3\<rparr> =
     \<lparr>ext_timestamp = 51203, ext_label = 2\<rparr>
   \<and> drop_bit 8 (51203 :: 64 word) = 200
   \<and> (ucast (51203 :: 64 word) :: 8 word) = 3
   \<and> encode_tot \<lparr>tot_timestamp = 2 ^ 48, tot_length = 3\<rparr> =
       \<lparr>ext_timestamp = 3, ext_label = 2\<rparr>
   \<and> fst (GetLCIOSubEvent2 example_decoder no_collections (example_event 1) (example_event 2))
        TOT_COLLECTION_NAME =
       Some [\<lparr>cell_sensorID = 1, cell_sparsePixelType = None, sparse_pixels = [],
              external_triggers =
                [\<lparr>ext_timestamp = 51203, ext_label = 2\<rparr>,
                 \<lparr>ext_timestamp = 51203, ext_label = 2\<rparr>]\<rparr>]"
  using C4_tot_encoding [of "\<lparr>tot_timestamp = 200, tot_length = 3\<rparr>" example_decoder
      no_collections "[example_block 1]" False False "[example_block 2]" False False "[]"]
    C4_tot_encoding [of "\<lparr>tot_timestamp = 2 ^ 48, tot_length = 3\<rparr>" example_decoder
      no_collections "[]" False False "[]" False False "[]"]
  by (simp add: example_defs)

lemma no_failure_among_warnings: "COUT message \<notin> set (spec_warnings frames)"
  by (auto simp add: spec_warnings_def hit_warning_def)

lemma failure_messages_mupix:
  "COUT ''FAILED to convert Mupix event to RawDataEvent'' \<in> set (failure_messages dest)
     \<longleftrightarrow> dest MUPIX_COLLECTION_NAME \<noteq> None"
  by (simp add: failure_messages_def)

lemma failure_messages_trigger:
  "COUT ''FAILED to convert trigger event to RawDataEvent'' \<in> set (failure_messages dest)
     \<longleftrightarrow> dest TRIGGER_COLLECTION_NAME \<noteq> None"
  by (simp add: failure_messages_def)

lemma failure_messages_tot:
  "COUT ''FAILED to convert tot event to RawDataEvent'' \<in> set (failure_messages dest)
     \<longleftrightarrow> dest TOT_COLLECTION_NAME \<noteq> None"
  by (simp add: failure_messages_def)

text \<open>
  C10. In both aggregation entry points each of the three records is appended to its
  collection before the test for success, whatever the test will say: after the call every
  collection is the one the event held before (empty if it held none) followed by the new
  record. A stream reports a failure exactly when its collection was already in the event,
  and then the record is in that collection all the same. A collection the call created
  holds the appended record when it is tested, so the test registers it.
\<close>

theorem C10_append_before_check:
  "fst (GetLCIOSubEvent2 dec dest (RawDataEvent False False source)
          (RawDataEvent b e next_source)) =
     dest(MUPIX_COLLECTION_NAME \<mapsto> existing dest MUPIX_COLLECTION_NAME @
            [new_mupix_frame\<lparr>sparse_pixels :=
               spec_pixel_record (window_frames dec (source @ next_source))\<rparr>],
          TRIGGER_COLLECTION_NAME \<mapsto> existing dest TRIGGER_COLLECTION_NAME @
            [new_trigger_frame\<lparr>external_triggers :=
               spec_trigger_record (window_frames dec (source @ next_source))\<rparr>],
          TOT_COLLECTION_NAME \<mapsto> existing dest TOT_COLLECTION_NAME @
            [new_trigger_frame\<lparr>external_triggers :=
               spec_tot_record (window_frames dec (source @ next_source))\<rparr>])
   \<and> (COUT ''FAILED to convert Mupix event to RawDataEvent''
        \<in> set (fst (snd (GetLCIOSubEvent2 dec dest (RawDataEvent False False source)
                           (RawDataEvent b e next_source))))) =
       (dest MUPIX_COLLECTION_NAME \<noteq> None)
   \<and> (COUT ''FAILED to convert trigger event to RawDataEvent''
        \<in> set (fst (snd (GetLCIOSubEvent2 dec dest (RawDataEvent False False source)
                           (RawDataEvent b e next_source))))) =
       (dest TRIGGER_COLLECTION_NAME \<noteq> None)
   \<and> (COUT ''FAILED to convert tot event to RawDataEvent''
        \<in> set (fst (snd (GetLCIOSubEvent2 dec dest (RawDataEvent False False source)
                           (RawDataEvent b e next_source))))) =
       (dest TOT_COLLECTION_NAME \<noteq> None)
   \<and> fst (GetLCIOSubEvent3 dec dest (RawDataEvent False False source)
            (RawDataEvent b e next_source) (RawDataEvent b' e' nextNext_source)) =
     dest(MUPIX_COLLECTION_NAME \<mapsto> existing dest MUPIX_COLLECTION_NAME @
            [new_mupix_frame\<lparr>sparse_pixels :=
               spec_pixel_record (window_frames dec (source @ next_source @ nextNext_source))\<rparr>],
          TRIGGER_COLLECTION_NAME \<mapsto> existing dest TRIGGER_COLLECTION_NAME @
            [new_trigger_frame\<lparr>external_triggers :=
               spec_trigger_record
                 (window_frames dec (source @ next_source @ nextNext_source))\<rparr>],
          TOT_COLLECTION_NAME \<mapsto> existing dest TOT_COLLECTION_NAME @
            [new_trigger_frame\<lparr>external_triggers :=
               spec_tot_record (window_frames dec (source @ next_source @ nextNext_source))\<rparr>])
   \<and> (COUT ''FAILED to convert Mupix event to RawDataEvent''
        \<in> set (fst (snd (GetLCIOSubEvent3 dec dest (RawDataEvent False False source)
                           (RawDataEvent b e next_source)
                           (RawDataEvent b' e' nextNext_source))))) =
       (dest MUPIX_COLLECTION_NAME \<noteq> None)
   \<and> (COUT ''FAILED to convert trigger event to RawDataEvent''
        \<in> set (fst (snd (GetLCIOSubEvent3 dec dest (RawDataEvent False False source)
                           (RawDataEvent b e next_source)
                           (RawDataEvent b' e' nextNext_source))))) =
       (dest TRIGGER_COLLECTION_NAME \<noteq> None)
   \<and> (COUT ''FAILED to convert tot event to RawDataEvent''
        \<in> set (fst (snd (GetLCIOSubEvent3 dec dest (RawDataEvent False False source)
                           (RawDataEvent b e next_source)
                           (RawDataEvent b' e' nextNext_source))))) =
       (dest TOT_COLLECTION_NAME \<noteq> None)
   \<and> add_or_fail name message False (collection @ [frame]) st =
       ((fst st)(name \<mapsto> collection @ [frame]), snd st)"
  by (simp add: GetLCIOSubEvent2_closed GetLCIOSubEvent3_closed no_failure_among_warnings
        failure_messages_mupix failure_messages_trigger failure_messages_tot add_or_fail_def)

theorem C10_witness:
  "fst (GetLCIOSubEvent2 example_decoder trigger_collection_only (example_event 1)
          (example_event 2)) TRIGGER_COLLECTION_NAME =
     Some [new_trigger_frame,
           new_trigger_frame\<lparr>external_triggers :=
             [\<lparr>ext_timestamp = 100, ext_label = 1\<rparr>, \<lparr>ext_timestamp = 100, ext_label = 1\<rparr>]\<rparr>]
   \<and> COUT ''FAILED to convert trigger event to RawDataEvent''
        \<in> set (fst (snd (GetLCIOSubEvent2 example_decoder trigger_collection_only
                           (example_event 1) (example_event 2))))
   \<and> COUT ''FAILED to convert tot event to RawDataEvent''
        \<notin> set (fst (snd (GetLCIOSubEvent2 example_decoder trigger_collection_only
                           (example_event 1) (example_event 2))))"
  using C10_append_before_check [of example_decoder trigger_collection_only
      "[example_block 1]" False False "[example_block 2]" False False "[]"
      "''x''" "''m''" "[]" new_trigger_frame "(no_collections, [])"]
  by (simp add: example_defs trigger_collection_only_def names_distinct)

subsection \<open>Run markers and events of another type\<close>

text \<open>
  C7. A raw event flagged as begin-of-run leaves the destination event as it was, emits one
  error-level message and returns \<open>true\<close>, in the quick-look path and in both
  aggregation entry points (where the flag of the first event of the window decides). A raw
  event flagged as end-of-run (and not as begin-of-run, which is tested first) leaves the
  destination as it was, emits one warning-level message and returns \<open>true\<close>.
\<close>

theorem C7_run_markers:
  "GetStandardSubEvent dec sdest (RawDataEvent True eore source) =
     (sdest, [EUDAQ_ERROR ''got BORE during conversion''], Returns True)
   \<and> GetStandardSubEvent dec sdest (RawDataEvent False True source) =
     (sdest, [EUDAQ_WARN ''got EORE during conversion''], Returns True)
   \<and> GetLCIOSubEvent2 dec dest (RawDataEvent True eore source) next =
     (dest, [EUDAQ_ERROR ''got BORE during lcio conversion''], Returns True)
   \<and> GetLCIOSubEvent2 dec dest (RawDataEvent False True source) next =
     (dest, [EUDAQ_WARN ''got EORE during lcio conversion''], Returns True)
   \<and> GetLCIOSubEvent3 dec dest (RawDataEvent True eore source) next nextNext =
     (dest, [EUDAQ_ERROR ''got BORE during lcio conversion''], Returns True)
   \<and> GetLCIOSubEvent3 dec dest (RawDataEvent False True source) next nextNext =
     (dest, [EUDAQ_WARN ''got EORE during lcio conversion''], Returns True)"
  by (simp add: GetStandardSubEvent_def GetLCIOSubEvent2_def GetLCIOSubEvent3_def)

theorem C7_witness:
  "GetStandardSubEvent example_decoder [] (RawDataEvent True False [example_block 1]) =
     ([], [EUDAQ_ERROR ''got BORE during conversion''], Returns True)
   \<and> GetStandardSubEvent example_decoder [] (RawDataEvent False True [example_block 1]) =
     ([], [EUDAQ_WARN ''got EORE during conversion''], Returns True)
   \<and> GetLCIOSubEvent2 example_decoder no_collections (RawDataEvent True False [example_block 1])
       (example_event 2) =
     (no_collections, [EUDAQ_ERROR ''got BORE during lcio conversion''], Returns True)
   \<and> GetLCIOSubEvent3 example_decoder no_collections (RawDataEvent False True [example_block 1])
       (example_event 2) (example_event 3) =
     (no_collections, [EUDAQ_WARN ''got EORE during lcio conversion''], Returns True)"
  using C7_run_markers [of example_decoder "[]" False "[example_block 1]" no_collections
      "example_event 2" "example_event 3"]
  by simp

text \<open>
  C8. In the quick-look path an event that is not a \<open>RawDataEvent\<close> leaves the
  destination untouched, but the function then ends without a \<open>return\<close> statement: no
  value is returned. The aggregation entry points return \<open>true\<close> in that situation.
\<close>

theorem C8_quick_look_no_return:
  "GetStandardSubEvent dec sdest (OtherEvent bore eore) = (sdest, [], NoReturnValue)"
  by (simp add: GetStandardSubEvent_def)

theorem C8_witness:
  "GetStandardSubEvent example_decoder [] (OtherEvent False False) = ([], [], NoReturnValue)"
  using C8_quick_look_no_return [of example_decoder "[]" False False]
  by simp

text \<open>
  The aggregation entry points on a window with a member of another type (and a first
  member that is no run marker): nothing is stored, nothing is printed, \<open>true\<close> is
  returned.
\<close>

lemma aggregation_cast_fails:
  "GetLCIOSubEvent2 dec dest (OtherEvent False False) next = (dest, [], Returns True)"
  "GetLCIOSubEvent2 dec dest (RawDataEvent False False source) (OtherEvent b e) =
     (dest, [], Returns True)"
  "GetLCIOSubEvent3 dec dest (OtherEvent False False) next nextNext = (dest, [], Returns True)"
  "GetLCIOSubEvent3 dec dest (RawDataEvent False False source) (OtherEvent b e) nextNext =
     (dest, [], Returns True)"
  "GetLCIOSubEvent3 dec dest (RawDataEvent False False source) (RawDataEvent b e next_source)
     (OtherEvent b' e') = (dest, [], Returns True)"
  by (simp_all add: GetLCIOSubEvent2_def GetLCIOSubEvent3_def split: Event.splits)

subsection \<open>The two passes of the quick-look path\<close>

lemma count_hits_eq: "count_hits dec bs n = n + length (decoded_hits dec bs)"
  by (induction bs arbitrary: n) (simp_all add: decoded_hits_def)

lemma keep_condition:
  fixes col row :: "32 word"
  shows "(\<not> (col = 0 \<and> row = 0) \<or> col > 31 \<or> row > 39) \<longleftrightarrow> \<not> (col = 0 \<and> row = 0)"
  by auto

lemma drop_condition_origin:
  "(hit_row hit = 0 \<and> hit_column hit = 0 \<and> hit_column hit \<le> 31 \<and> hit_row hit \<le> 39)
     \<longleftrightarrow> origin hit"
  by (auto simp add: origin_def)

lemma pixel_loop_frame:
  "\<exists>f. pixel_loop hs j nhits plane = plane\<lparr>plane_pixels := f\<rparr>"
proof (induction hs arbitrary: j plane)
  case Nil
  have "pixel_loop [] j nhits plane = plane\<lparr>plane_pixels := plane_pixels plane\<rparr>"
    by simp
  then show ?case by blast
next
  case (Cons h hs)
  show ?case
  proof (cases "\<not> (hit_column h = 0 \<and> hit_row h = 0) \<or> hit_column h > 31 \<or> hit_row h > 39")
    case True
    from Cons.IH [of "j + 1"
        "SetPixel ((nhits + j) mod 2 ^ 32) (hit_row h) (hit_column h)
           MUPIX_SENSOR_BINARY_SIGNAL plane"]
    obtain f where "pixel_loop hs (j + 1) nhits
        (SetPixel ((nhits + j) mod 2 ^ 32) (hit_row h) (hit_column h)
           MUPIX_SENSOR_BINARY_SIGNAL plane) =
        (SetPixel ((nhits + j) mod 2 ^ 32) (hit_row h) (hit_column h)
           MUPIX_SENSOR_BINARY_SIGNAL plane)\<lparr>plane_pixels := f\<rparr>"
      by blast
    with True have "pixel_loop (h # hs) j nhits plane = plane\<lparr>plane_pixels := f\<rparr>"
      by (simp add: SetPixel_def)
    then show ?thesis by blast
  next
    case False
    from Cons.IH [of "j + 1" plane]
    obtain f where "pixel_loop hs (j + 1) nhits plane = plane\<lparr>plane_pixels := f\<rparr>"
      by blast
    with False have "pixel_loop (h # hs) j nhits plane = plane\<lparr>plane_pixels := f\<rparr>"
      by simp
    then show ?thesis by blast
  qed
qed

lemma fill_plane_frame:
  "\<exists>f. fill_plane dec bs nhits plane = plane\<lparr>plane_pixels := f\<rparr>"
proof (induction bs arbitrary: nhits plane)
  case Nil
  have "fill_plane dec [] nhits plane = plane\<lparr>plane_pixels := plane_pixels plane\<rparr>"
    by simp
  then show ?case by blast
next
  case (Cons b bs)
  obtain g where g: "pixel_loop (frame_hits (dec (block_data b))) 0 nhits plane =
      plane\<lparr>plane_pixels := g\<rparr>"
    using pixel_loop_frame by blast
  from Cons.IH [of "nhits + length (frame_hits (dec (block_data b)))" "plane\<lparr>plane_pixels := g\<rparr>"]
  obtain f where "fill_plane dec bs (nhits + length (frame_hits (dec (block_data b))))
      (plane\<lparr>plane_pixels := g\<rparr>) = plane\<lparr>plane_pixels := g\<rparr>\<lparr>plane_pixels := f\<rparr>"
    by blast
  with g have "fill_plane dec (b # bs) nhits plane = plane\<lparr>plane_pixels := f\<rparr>"
    by (simp add: Let_def)
  then show ?case by blast
qed

lemma pixel_loop_pixels:
  "nhits + j + length hs \<le> 2 ^ 32 \<Longrightarrow>
   plane_pixels (pixel_loop hs j nhits plane) i =
     (if nhits + j \<le> i \<and> i < nhits + j + length hs \<and> \<not> origin (hs ! (i - (nhits + j)))
      then Some (stored (hs ! (i - (nhits + j))))
      else plane_pixels plane i)"
proof (induction hs arbitrary: j plane)
  case Nil
  then show ?case by auto
next
  case (Cons h hs)
  from Cons.prems have small: "(nhits + j) mod 2 ^ 32 = nhits + j"
    by simp
  from Cons.prems have next_bound: "nhits + (j + 1) + length hs \<le> 2 ^ 32"
    by simp
  show ?case
    unfolding pixel_loop.simps Let_def keep_condition small Cons.IH [OF next_bound]
    by (auto simp add: SetPixel_def stored_def origin_def
          nth_Cons' )
qed

lemma fill_plane_pixels:
  "nhits + length (decoded_hits dec bs) \<le> 2 ^ 32 \<Longrightarrow>
   plane_pixels (fill_plane dec bs nhits plane) i =
     (if nhits \<le> i \<and> i < nhits + length (decoded_hits dec bs)
        \<and> \<not> origin (decoded_hits dec bs ! (i - nhits))
      then Some (stored (decoded_hits dec bs ! (i - nhits)))
      else plane_pixels plane i)"
proof (induction bs arbitrary: nhits plane)
  case Nil
  then show ?case by (auto simp add: decoded_hits_def)
next
  case (Cons b bs)
  define hs where "hs = frame_hits (dec (block_data b))"
  have split: "decoded_hits dec (b # bs) = hs @ decoded_hits dec bs"
    by (simp add: decoded_hits_def hs_def)
  from Cons.prems have inner: "nhits + 0 + length hs \<le> 2 ^ 32"
    by (simp add: split)
  from Cons.prems have outer: "(nhits + length hs) + length (decoded_hits dec bs) \<le> 2 ^ 32"
    by (simp add: split)
  have step: "fill_plane dec (b # bs) nhits plane =
      fill_plane dec bs (nhits + length hs) (pixel_loop hs 0 nhits plane)"
    by (simp add: Let_def hs_def)
  show ?case
    unfolding step split Cons.IH [OF outer] pixel_loop_pixels [OF inner]
    by (auto simp add: nth_append)
qed

lemma GetID_last:
  "source \<noteq> [] \<Longrightarrow> GetID source (NumBlocks_minus_1 source) = Some (block_id (last source))"
  by (simp add: GetID_def NumBlocks_minus_1_def last_conv_nth)


lemma GetStandardSubEvent_raw:
  "source \<noteq> [] \<Longrightarrow>
   GetStandardSubEvent dec dest (RawDataEvent False False source) =
     (dest @ [if block_id (last source) > 100
              then populated_plane dec source (block_id (last source))
              else empty_plane (block_id (last source))],
      [], Returns True)"
  by (simp add: GetStandardSubEvent_def GetID_last AddPlane_def populated_plane_def
        empty_plane_def Let_def)



lemma populated_plane_eq:
  "populated_plane dec source tlu =
     \<lparr>plane_id = 71, plane_type = ''MUPIX7'', plane_sensor = ''MUPIX7'',
      plane_xsize = 40, plane_ysize = 32,
      plane_npix = length (decoded_hits dec source) mod 2 ^ 32, plane_tluevent = tlu,
      plane_pixels = plane_pixels (populated_plane dec source tlu)\<rparr>"
proof -
  define start where "start =
    SetTLUEvent tlu (SetSizeZS MUPIX_SENSOR_NUM_COLS MUPIX_SENSOR_NUM_ROWS
      (count_hits dec source 0 mod 2 ^ 32)
      (new_StandardPlane MUPIX_SENSOR_ID MUPIX_EVENT_TYPE MUPIX_SENSOR_TYPE))"
  have p: "populated_plane dec source tlu = fill_plane dec source 0 start"
    by (simp add: populated_plane_def start_def)
  obtain f where f: "fill_plane dec source 0 start = start\<lparr>plane_pixels := f\<rparr>"
    using fill_plane_frame by blast
  show ?thesis
    unfolding p f
    by (simp add: start_def SetTLUEvent_def SetSizeZS_def new_StandardPlane_def
          MUPIX_SENSOR_ID_def MUPIX_EVENT_TYPE_def MUPIX_SENSOR_TYPE_def
          MUPIX_SENSOR_NUM_COLS_def MUPIX_SENSOR_NUM_ROWS_def count_hits_eq)
qed

lemma populated_plane_pixels:
  assumes "length (decoded_hits dec source) \<le> 2 ^ 32"
  shows "plane_pixels (populated_plane dec source tlu) i =
     (if i < length (decoded_hits dec source) \<and> \<not> origin (decoded_hits dec source ! i)
      then Some (stored (decoded_hits dec source ! i))
      else None)"
proof -
  from assms have bound: "0 + length (decoded_hits dec source) \<le> 2 ^ 32"
    by simp
  show ?thesis
    unfolding populated_plane_def Let_def fill_plane_pixels [OF bound]
    by (simp add: SetTLUEvent_def SetSizeZS_def)
qed

lemma populated_plane_dom:
  assumes "length (decoded_hits dec source) \<le> 2 ^ 32"
  shows "dom (plane_pixels (populated_plane dec source tlu)) =
     {i. i < length (decoded_hits dec source) \<and> \<not> origin (decoded_hits dec source ! i)}"
  by (auto simp add: populated_plane_pixels [OF assms] dom_def stored_def)

lemma populated_plane_card:
  assumes "length (decoded_hits dec source) \<le> 2 ^ 32"
  shows "card (dom (plane_pixels (populated_plane dec source tlu))) =
     length (filter (\<lambda>hit. \<not> origin hit) (decoded_hits dec source))"
  by (simp add: populated_plane_dom [OF assms] length_filter_conv_card)

lemma decoded_hits_append:
  "decoded_hits dec (bs @ cs) = decoded_hits dec bs @ decoded_hits dec cs"
  by (simp add: decoded_hits_def)

lemma decoded_hits_cons:
  "decoded_hits dec (b # bs) = frame_hits (dec (block_data b)) @ decoded_hits dec bs"
  by (simp add: decoded_hits_def)

lemma decoded_hits_position:
  assumes "k < length source" and "j < length (frame_hits (dec (block_data (source ! k))))"
  shows "length (decoded_hits dec (take k source)) + j < length (decoded_hits dec source)
    \<and> decoded_hits dec source ! (length (decoded_hits dec (take k source)) + j) =
        frame_hits (dec (block_data (source ! k))) ! j"
proof -
  have "source = take k source @ source ! k # drop (Suc k) source"
    using assms(1) by (simp add: id_take_nth_drop)
  then have "decoded_hits dec source =
      decoded_hits dec (take k source) @ frame_hits (dec (block_data (source ! k)))
        @ decoded_hits dec (drop (Suc k) source)"
    by (metis decoded_hits_append decoded_hits_cons)
  with assms(2) show ?thesis
    by (simp add: nth_append)
qed

lemmas quick_look_example_defs =
  decoded_hits_def example_frame_def example_block_def example_event_def no_frame_def
  origin_def stored_def MUPIX_SENSOR_BINARY_SIGNAL_def

subsection \<open>Claims about the quick-look path\<close>

text \<open>
  C5. In the plane built by the second pass (the plane the entry point attaches when the
  trailing block's id is above 100), the position of a decoded hit is left unset exactly
  when the hit has \<open>row == 0\<close> and \<open>col == 0\<close> and \<open>col <= 31\<close> and \<open>row <= 39\<close>;
  the position of every other hit holds that hit's pixel. (The hit count is taken to fit
  the 32-bit pixel index.)
\<close>

theorem C5_origin_hit_dropped:
  assumes "length (decoded_hits dec source) \<le> 2 ^ 32"
    and "i < length (decoded_hits dec source)"
  shows "(source \<noteq> [] \<and> block_id (last source) > 100 \<longrightarrow>
       GetStandardSubEvent dec dest (RawDataEvent False False source) =
         (dest @ [populated_plane dec source (block_id (last source))], [], Returns True))
   \<and> plane_pixels (populated_plane dec source tlu) i =
     (if hit_row (decoded_hits dec source ! i) = 0 \<and> hit_column (decoded_hits dec source ! i) = 0
         \<and> hit_column (decoded_hits dec source ! i) \<le> 31
         \<and> hit_row (decoded_hits dec source ! i) \<le> 39
      then None
      else Some (hit_row (decoded_hits dec source ! i),
                 hit_column (decoded_hits dec source ! i), 1))"
proof -
  have attached: "source \<noteq> [] \<and> block_id (last source) > 100 \<longrightarrow>
      GetStandardSubEvent dec dest (RawDataEvent False False source) =
        (dest @ [populated_plane dec source (block_id (last source))], [], Returns True)"
    by (simp add: GetStandardSubEvent_raw)
  have position: "plane_pixels (populated_plane dec source tlu) i =
     (if hit_row (decoded_hits dec source ! i) = 0 \<and> hit_column (decoded_hits dec source ! i) = 0
         \<and> hit_column (decoded_hits dec source ! i) \<le> 31
         \<and> hit_row (decoded_hits dec source ! i) \<le> 39
      then None
      else Some (hit_row (decoded_hits dec source ! i),
                 hit_column (decoded_hits dec source ! i), 1))"
    unfolding drop_condition_origin populated_plane_pixels [OF assms(1)]
    using assms(2) by (simp add: stored_def MUPIX_SENSOR_BINARY_SIGNAL_def)
  from attached position show ?thesis
    by (rule conjI)
qed

theorem C5_witness:
  "GetStandardSubEvent example_decoder [] (example_event 101) =
     ([populated_plane example_decoder [example_block 101] 101], [], Returns True)
   \<and> plane_pixels (populated_plane example_decoder [example_block 101] 101) 0 = None
   \<and> plane_pixels (populated_plane example_decoder [example_block 101] 101) 1 = Some (5, 10, 1)
   \<and> plane_pixels (populated_plane example_decoder [example_block 101] 101) 2 = Some (45, 3, 1)"
  using
    C5_origin_hit_dropped [where dec = example_decoder and source = "[example_block 101]"
      and i = 0 and tlu = 101 and dest = "[]"]
    C5_origin_hit_dropped [where dec = example_decoder and source = "[example_block 101]"
      and i = 1 and tlu = 101 and dest = "[]"]
    C5_origin_hit_dropped [where dec = example_decoder and source = "[example_block 101]"
      and i = 2 and tlu = 101 and dest = "[]"]
  by (simp add: quick_look_example_defs)




text \<open>
  C9. The declared hit count of the populated plane (the plane the entry point attaches
  when the trailing block's id is above 100) is the number of all decoded hits of all
  blocks, suppressed ones included (the count is taken to fit 32 bits). Hit \<open>j\<close> of
  block \<open>k\<close> belongs to the position that is the hit total of the blocks before \<open>k\<close>
  plus \<open>j\<close>: the position holds its pixel if the hit survives the filter and is unset if
  not, and no other position is set. So the number of set positions is the number of
  surviving hits, and it is below the declared hit count as soon as one hit is suppressed.
\<close>

theorem C9_declared_count_and_positions:
  assumes "length (decoded_hits dec source) < 2 ^ 32"
  shows "(source \<noteq> [] \<and> block_id (last source) > 100 \<longrightarrow>
       GetStandardSubEvent dec dest (RawDataEvent False False source) =
         (dest @ [populated_plane dec source (block_id (last source))], [], Returns True))
   \<and> plane_npix (populated_plane dec source tlu) = length (decoded_hits dec source)
   \<and> (k < length source \<and> j < length (frame_hits (dec (block_data (source ! k)))) \<longrightarrow>
         plane_pixels (populated_plane dec source tlu) (count_hits dec (take k source) 0 + j) =
           (if hit_column (frame_hits (dec (block_data (source ! k))) ! j) = 0
               \<and> hit_row (frame_hits (dec (block_data (source ! k))) ! j) = 0
            then None
            else Some (hit_row (frame_hits (dec (block_data (source ! k))) ! j),
                       hit_column (frame_hits (dec (block_data (source ! k))) ! j), 1)))
   \<and> dom (plane_pixels (populated_plane dec source tlu)) \<subseteq> {..<length (decoded_hits dec source)}
   \<and> card (dom (plane_pixels (populated_plane dec source tlu))) =
       length (filter (\<lambda>hit. \<not> (hit_column hit = 0 \<and> hit_row hit = 0))
                 (decoded_hits dec source))
   \<and> ((\<exists>hit \<in> set (decoded_hits dec source). hit_column hit = 0 \<and> hit_row hit = 0) \<longrightarrow>
        card (dom (plane_pixels (populated_plane dec source tlu)))
          < plane_npix (populated_plane dec source tlu))"
proof -
  from assms have le: "length (decoded_hits dec source) \<le> 2 ^ 32"
    by simp
  have npix: "plane_npix (populated_plane dec source tlu) = length (decoded_hits dec source)"
    using assms by (subst populated_plane_eq) simp
  have positions: "plane_pixels (populated_plane dec source tlu)
        (count_hits dec (take k source) 0 + j) =
      (if hit_column (frame_hits (dec (block_data (source ! k))) ! j) = 0
          \<and> hit_row (frame_hits (dec (block_data (source ! k))) ! j) = 0
       then None
       else Some (hit_row (frame_hits (dec (block_data (source ! k))) ! j),
                  hit_column (frame_hits (dec (block_data (source ! k))) ! j), 1))"
    if "k < length source" and "j < length (frame_hits (dec (block_data (source ! k))))"
    using decoded_hits_position [of k source j dec] that
    by (simp add: populated_plane_pixels [OF le] count_hits_eq origin_def stored_def
          MUPIX_SENSOR_BINARY_SIGNAL_def)
  have inside: "dom (plane_pixels (populated_plane dec source tlu))
      \<subseteq> {..<length (decoded_hits dec source)}"
    by (auto simp add: populated_plane_dom [OF le])
  have count: "card (dom (plane_pixels (populated_plane dec source tlu))) =
      length (filter (\<lambda>hit. \<not> (hit_column hit = 0 \<and> hit_row hit = 0))
                (decoded_hits dec source))"
    using populated_plane_card [OF le, of tlu] by (simp add: origin_def)
  have fewer: "card (dom (plane_pixels (populated_plane dec source tlu)))
      < plane_npix (populated_plane dec source tlu)"
    if "\<exists>hit \<in> set (decoded_hits dec source). hit_column hit = 0 \<and> hit_row hit = 0"
  proof -
    from that obtain hit where "hit \<in> set (decoded_hits dec source)"
      and "\<not> \<not> (hit_column hit = 0 \<and> hit_row hit = 0)"
      by blast
    then have "length (filter (\<lambda>hit. \<not> (hit_column hit = 0 \<and> hit_row hit = 0))
        (decoded_hits dec source)) < length (decoded_hits dec source)"
      by (rule length_filter_less)
    then show ?thesis by (simp add: count npix)
  qed
  have attached: "source \<noteq> [] \<and> block_id (last source) > 100 \<longrightarrow>
      GetStandardSubEvent dec dest (RawDataEvent False False source) =
        (dest @ [populated_plane dec source (block_id (last source))], [], Returns True)"
    by (simp add: GetStandardSubEvent_raw)
  from attached npix positions inside count fewer show ?thesis
    by blast
qed

theorem C9_witness:
  "GetStandardSubEvent example_decoder []
       (RawDataEvent False False [example_block 7, example_block 101]) =
     ([populated_plane example_decoder [example_block 7, example_block 101] 101], [],
      Returns True)
   \<and> plane_npix (populated_plane example_decoder [example_block 7, example_block 101] 101) = 6
   \<and> plane_pixels (populated_plane example_decoder [example_block 7, example_block 101] 101) 3
       = None
   \<and> plane_pixels (populated_plane example_decoder [example_block 7, example_block 101] 101) 4
       = Some (5, 10, 1)
   \<and> card (dom (plane_pixels
        (populated_plane example_decoder [example_block 7, example_block 101] 101))) = 4"
proof -
  have small: "length (decoded_hits example_decoder [example_block 7, example_block 101])
      < 2 ^ 32"
    by (simp add: quick_look_example_defs)
  have three: "(3 :: nat) = Suc (Suc (Suc 0))" and four: "(4 :: nat) = Suc (Suc (Suc (Suc 0)))"
    by simp_all
  from C9_declared_count_and_positions [OF small, where tlu = 101 and k = "Suc 0" and j = 0
      and dest = "[]"]
  have first: "GetStandardSubEvent example_decoder []
          (RawDataEvent False False [example_block 7, example_block 101]) =
        ([populated_plane example_decoder [example_block 7, example_block 101] 101], [],
         Returns True)
      \<and> plane_npix
        (populated_plane example_decoder [example_block 7, example_block 101] 101) = 6
      \<and> plane_pixels
          (populated_plane example_decoder [example_block 7, example_block 101] 101)
          (Suc (Suc (Suc 0))) = None
      \<and> card (dom (plane_pixels
          (populated_plane example_decoder [example_block 7, example_block 101] 101))) = 4"
    by (simp add: quick_look_example_defs)
  from C9_declared_count_and_positions [OF small, where tlu = 101 and k = "Suc 0"
      and j = "Suc 0" and dest = "[]"]
  have second: "plane_pixels
      (populated_plane example_decoder [example_block 7, example_block 101] 101)
      (Suc (Suc (Suc (Suc 0)))) = Some (5, 10, 1)"
    by (simp add: quick_look_example_defs)
  from first second show ?thesis
    unfolding three four by simp
qed

end
